theory Spec2Isabelle
  imports Complex_Main
begin

section \<open>Matrices and vectors\<close>

text \<open>
  The routine \<open>directional::parameterize\<close> (include/directional/parameterize.h) works on
  Eigen matrices of \<open>double\<close> and \<open>int\<close>. A matrix is modelled by its two dimensions and
  its coefficient function; only coefficients inside the dimensions are ever read.
  Scalars of type \<open>double\<close> are modelled by exact reals, so rounding is not part of the
  model. Index arithmetic is done on naturals: the source computes it on \<open>int\<close>, and all
  the indices it forms are nonnegative. A dense vector is a list.
\<close>

record 'a mat =
  nrows :: nat
  ncols :: nat
  coeff :: "nat \<Rightarrow> nat \<Rightarrow> 'a"

type_synonym triplet = "nat \<times> nat \<times> real"

definition mat_of_rows :: "nat \<Rightarrow> 'a::zero list list \<Rightarrow> 'a mat" where
  "mat_of_rows c rs =
     \<lparr>nrows = length rs, ncols = c,
      coeff = (\<lambda>i j. if i < length rs \<and> j < length (rs ! i) then rs ! i ! j else 0)\<rparr>"

definition zero_mat :: "nat \<Rightarrow> nat \<Rightarrow> real mat" where
  \<comment> \<open>\<open>SparseMatrix<double> A(r, c)\<close>: a sparse matrix with no stored entry\<close>
  "zero_mat r c = \<lparr>nrows = r, ncols = c, coeff = (\<lambda>i j. 0)\<rparr>"

definition setFromTriplets :: "nat \<Rightarrow> nat \<Rightarrow> triplet list \<Rightarrow> real mat" where
  \<comment> \<open>Eigen sums the values of the triplets that name the same position\<close>
  "setFromTriplets r c ts =
     \<lparr>nrows = r, ncols = c,
      coeff = (\<lambda>i j. sum_list (map (\<lambda>(i', j', v). if i' = i \<and> j' = j then v else 0) ts))\<rparr>"

definition transpose_mat :: "real mat \<Rightarrow> real mat" where
  "transpose_mat A = \<lparr>nrows = ncols A, ncols = nrows A, coeff = (\<lambda>i j. coeff A j i)\<rparr>"

definition mat_mul :: "real mat \<Rightarrow> real mat \<Rightarrow> real mat" where
  "mat_mul A B =
     \<lparr>nrows = nrows A, ncols = ncols B,
      coeff = (\<lambda>i j. sum_list (map (\<lambda>l. coeff A i l * coeff B l j) [0..<ncols A]))\<rparr>"

definition mat_vec :: "real mat \<Rightarrow> real list \<Rightarrow> real list" where
  "mat_vec A v =
     map (\<lambda>i. sum_list (map (\<lambda>l. coeff A i l * v ! l) [0..<ncols A])) [0..<nrows A]"

definition col_vector :: "real list \<Rightarrow> real mat" where
  \<comment> \<open>a vector assigned to a \<open>MatrixXd\<close>: one column\<close>
  "col_vector v =
     \<lparr>nrows = length v, ncols = 1, coeff = (\<lambda>i j. if i < length v \<and> j = 0 then v ! i else 0)\<rparr>"

definition dot :: "real list \<Rightarrow> real list \<Rightarrow> real" where
  "dot u v = sum_list (map2 (*) u v)"

definition stored :: "real mat \<Rightarrow> triplet list" where
  \<comment> \<open>the \<open>InnerIterator\<close> loops over a column-major sparse matrix: outer index the
      column, inner the row; positions that are not stored hold zero\<close>
  "stored M =
     concat (map (\<lambda>j. concat (map (\<lambda>i. if coeff M i j = 0 then [] else [(i, j, coeff M i j)])
       [0..<nrows M])) [0..<ncols M])"

section \<open>Inputs\<close>

record input =
  wholeV :: "real mat"
  wholeF :: "int mat"
  FE :: "int mat"
  rawField :: "real mat"
  edgeWeights :: "real list"
  vt2cMat :: "real mat"
  constraintMat :: "real mat"

definition branchN :: "input \<Rightarrow> nat" where
  \<comment> \<open>\<open>int N = rawField.cols()/3\<close>\<close>
  "branchN inp = ncols (rawField inp) div 3"

definition cornerDim :: "input \<Rightarrow> nat" where
  \<comment> \<open>\<open>3*N*wholeF.rows()\<close>\<close>
  "cornerDim inp = 3 * branchN inp * nrows (wholeF inp)"

section \<open>The assembly loop\<close>

definition rowIndex :: "nat \<Rightarrow> nat \<Rightarrow> nat \<Rightarrow> nat \<Rightarrow> nat" where
  \<comment> \<open>\<open>3*N*i+N*j+k\<close>\<close>
  "rowIndex N i j k = 3 * N * i + N * j + k"

definition nextIndex :: "nat \<Rightarrow> nat \<Rightarrow> nat \<Rightarrow> nat \<Rightarrow> nat" where
  \<comment> \<open>\<open>3*N*i+N*(j+1)%3+k\<close>: in C++ \<open>*\<close> and \<open>%\<close> have the same precedence and associate
      to the left, so the remainder is taken of \<open>N*(j+1)\<close>\<close>
  "nextIndex N i j k = 3 * N * i + (N * (j + 1)) mod 3 + k"

definition nextIndex_spec :: "nat \<Rightarrow> nat \<Rightarrow> nat \<Rightarrow> nat \<Rightarrow> nat" where
  \<comment> \<open>the column the specification names: the wrap is applied to the corner index\<close>
  "nextIndex_spec N i j k = 3 * N * i + N * ((j + 1) mod 3) + k"

definition vertexRow :: "input \<Rightarrow> int \<Rightarrow> real list" where
  \<comment> \<open>\<open>wholeV.row(v)\<close>, three columns\<close>
  "vertexRow inp v = map (\<lambda>c. coeff (wholeV inp) (nat v) c) [0..<3]"

definition edgeVector :: "input \<Rightarrow> nat \<Rightarrow> nat \<Rightarrow> real list" where
  \<comment> \<open>\<open>wholeV.row(wholeF(i,(j+1)%3)) - wholeV.row(wholeF(i,j))\<close>\<close>
  "edgeVector inp i j =
     map2 (-) (vertexRow inp (coeff (wholeF inp) i ((j + 1) mod 3)))
              (vertexRow inp (coeff (wholeF inp) i j))"

definition fieldBranch :: "input \<Rightarrow> nat \<Rightarrow> nat \<Rightarrow> real list" where
  \<comment> \<open>\<open>rawField.block(i, 3*k, 1, 3)\<close>\<close>
  "fieldBranch inp i k = map (\<lambda>c. coeff (rawField inp) i (3 * k + c)) [0..<3]"

record loop_state =
  d0Triplets :: "triplet list"
  M1Triplets :: "triplet list"
  gamma :: "real list"

definition loop_body :: "input \<Rightarrow> nat \<times> nat \<times> nat \<Rightarrow> loop_state \<Rightarrow> loop_state" where
  "loop_body inp = (\<lambda>(i, j, k) s.
     let N = branchN inp; r = rowIndex N i j k in
     \<lparr>d0Triplets = d0Triplets s @ [(r, r, - 1), (r, nextIndex N i j k, 1)],
      M1Triplets = M1Triplets s @ [(r, r, edgeWeights inp ! nat (coeff (FE inp) i j))],
      gamma = (gamma s)[r := dot (fieldBranch inp i k) (edgeVector inp i j)]\<rparr>)"

definition iterations :: "nat \<Rightarrow> nat \<Rightarrow> (nat \<times> nat \<times> nat) list" where
  \<comment> \<open>the iteration space of the three nested \<open>for\<close> loops, in execution order\<close>
  "iterations nF N =
     concat (map (\<lambda>i. concat (map (\<lambda>j. map (\<lambda>k. (i, j, k)) [0..<N]) [0..<3])) [0..<nF])"

definition assemble :: "input \<Rightarrow> loop_state" where
  \<comment> \<open>\<open>VectorXd gamma(3*N*wholeF.rows())\<close> is not initialised by Eigen; the model starts
      it with zeros, and \<open>gamma_closed_form\<close> shows that every entry is overwritten\<close>
  "assemble inp =
     fold (loop_body inp) (iterations (nrows (wholeF inp)) (branchN inp))
       \<lparr>d0Triplets = [], M1Triplets = [], gamma = replicate (cornerDim inp) 0\<rparr>"

definition d0 :: "input \<Rightarrow> real mat" where
  "d0 inp = setFromTriplets (cornerDim inp) (cornerDim inp) (d0Triplets (assemble inp))"

definition M1 :: "input \<Rightarrow> real mat" where
  "M1 inp = setFromTriplets (cornerDim inp) (cornerDim inp) (M1Triplets (assemble inp))"

definition EtE :: "input \<Rightarrow> real mat" where
  \<comment> \<open>\<open>vt2cMatTranspose*d0T*M1*d0*vt2cMat\<close>, associated to the left\<close>
  "EtE inp =
     mat_mul (mat_mul (mat_mul (mat_mul (transpose_mat (vt2cMat inp)) (transpose_mat (d0 inp)))
       (M1 inp)) (d0 inp)) (vt2cMat inp)"

definition ATriplets :: "input \<Rightarrow> triplet list" where
  \<comment> \<open>lines 82 to 92: the entries of \<open>EtE\<close>, then each entry of \<open>constraintMat\<close> twice\<close>
  "ATriplets inp =
     stored (EtE inp) @
     concat (map (\<lambda>(i, j, v). [(i + cornerDim inp, j, v), (j, i + cornerDim inp, v)])
       (stored (constraintMat inp)))"

definition A_mat :: "input \<Rightarrow> real mat" where
  \<comment> \<open>line 80 declares \<open>A\<close> with its size; the source never calls
      \<open>A.setFromTriplets(ATriplets.begin(), ATriplets.end())\<close>, so \<open>A\<close> stays as declared\<close>
  "A_mat inp = zero_mat (cornerDim inp + nrows (constraintMat inp))
                    (cornerDim inp + nrows (constraintMat inp))"

definition b_vec :: "input \<Rightarrow> real list" where
  \<comment> \<open>\<open>b = Zero(vt2cMatTranspose.rows()+constraintMat.rows())\<close>, then
      \<open>b.segment(0,vt2cMatTranspose.rows()) = vt2cMatTranspose*d0T*gamma\<close>\<close>
  "b_vec inp =
     (let Pt = transpose_mat (vt2cMat inp);
          b0 = replicate (nrows Pt + nrows (constraintMat inp)) (0::real)
      in mat_vec (mat_mul Pt (transpose_mat (d0 inp))) (gamma (assemble inp)) @ drop (nrows Pt) b0)"

section \<open>Checks made by Eigen\<close>

text \<open>
  Eigen checks indices and operand sizes with \<open>eigen_assert\<close>, which aborts the program
  (in a build with \<open>NDEBUG\<close> the checks are compiled out and a violation is undefined
  behaviour; the model is of a build that has them). The checks that the routine can fail
  are collected here; a run that fails one of them ends in \<open>Inl EigenAssert\<close>. The
  triplets of \<open>d0\<close> and \<open>M1\<close> are always inside the declared size, see
  \<open>d0Triplets_in_range\<close> and \<open>M1Triplets_in_range\<close>.
\<close>

definition index_ok :: "int \<Rightarrow> nat \<Rightarrow> bool" where
  "index_ok v n = (0 \<le> v \<and> nat v < n)"

definition body_asserts :: "input \<Rightarrow> nat \<Rightarrow> nat \<Rightarrow> bool" where
  \<comment> \<open>the accesses of one pass through lines 64 to 66, for face \<open>i\<close> and corner \<open>j\<close>\<close>
  "body_asserts inp i j =
     (j < ncols (wholeF inp) \<and> (j + 1) mod 3 < ncols (wholeF inp) \<and>
      index_ok (coeff (wholeF inp) i j) (nrows (wholeV inp)) \<and>
      index_ok (coeff (wholeF inp) i ((j + 1) mod 3)) (nrows (wholeV inp)) \<and>
      ncols (wholeV inp) = 3 \<and>
      i < nrows (rawField inp) \<and>
      i < nrows (FE inp) \<and> j < ncols (FE inp) \<and>
      index_ok (coeff (FE inp) i j) (length (edgeWeights inp)))"

definition loop_asserts :: "input \<Rightarrow> bool" where
  \<comment> \<open>the body runs only when there is at least one branch\<close>
  "loop_asserts inp =
     (branchN inp = 0 \<or>
      list_all (\<lambda>i. list_all (\<lambda>j. body_asserts inp i j) [0..<3]) [0..<nrows (wholeF inp)])"

definition product_asserts :: "input \<Rightarrow> bool" where
  \<comment> \<open>\<open>d0*vt2cMat\<close> and \<open>vt2cMatTranspose*d0T\<close> need as many rows in \<open>vt2cMat\<close> as \<open>d0\<close>
      has columns\<close>
  "product_asserts inp = (nrows (vt2cMat inp) = cornerDim inp)"

section \<open>The solver and the routine\<close>

text \<open>
  \<open>Eigen::SparseLU\<close> is a parameter of the model: \<open>lu_compute\<close> says whether
  \<open>solver.info()\<close> is \<open>Success\<close> after \<open>compute\<close>; \<open>lu_solve\<close> is \<open>None\<close> when it is not
  \<open>Success\<close> after \<open>solve\<close>, and otherwise gives the coefficients of the solution, which
  Eigen returns as a vector with as many entries as the matrix has columns. The routine
  returns \<open>void\<close>; the lines it writes to \<open>cout\<close> are not modelled, the \<open>status\<close> names
  the \<open>return\<close> that ended the call.
\<close>

record solver =
  lu_compute :: "real mat \<Rightarrow> bool"
  lu_solve :: "real mat \<Rightarrow> real list \<Rightarrow> (nat \<Rightarrow> real) option"

datatype error = EigenAssert

datatype status = Solved | ComputeFailed | SolveFailed

definition parameterize :: "solver \<Rightarrow> input \<Rightarrow> real mat \<Rightarrow> error + status \<times> real mat" where
  \<comment> \<open>the result is the path on which the routine returned and the content of the
      caller's \<open>cornerUV\<close> at that moment\<close>
  "parameterize slv inp cornerUV =
     (if loop_asserts inp \<and> product_asserts inp then
        if lu_compute slv (A_mat inp) then
          if nrows (A_mat inp) = length (b_vec inp) then
            (case lu_solve slv (A_mat inp) (b_vec inp) of
               None \<Rightarrow> Inr (SolveFailed, cornerUV)
             | Some xf \<Rightarrow>
                 let x = map xf [0..<ncols (A_mat inp)] in
                 if ncols (vt2cMat inp) = length x
                 then Inr (Solved, col_vector (mat_vec (vt2cMat inp) x))
                 else Inl EigenAssert)
          else Inl EigenAssert
        else Inr (ComputeFailed, cornerUV)
      else Inl EigenAssert)"

section \<open>What the specification asks for\<close>

text \<open>
  Two definitions written from the specification's words, to be compared with the
  definitions above: the right-hand side with the weight matrix in it, and the
  augmented matrix with its four blocks, sized by the column count of \<open>vt2cMat\<close>.
\<close>

definition b_spec :: "input \<Rightarrow> real list" where
  "b_spec inp =
     mat_vec (mat_mul (mat_mul (transpose_mat (vt2cMat inp)) (transpose_mat (d0 inp))) (M1 inp))
       (gamma (assemble inp))
     @ replicate (nrows (constraintMat inp)) 0"

definition A_spec :: "input \<Rightarrow> real mat" where
  "A_spec inp =
     (let n = ncols (vt2cMat inp); m = nrows (constraintMat inp) in
      \<lparr>nrows = n + m, ncols = n + m,
       coeff = (\<lambda>i j.
         if i < n \<and> j < n then coeff (EtE inp) i j
         else if i < n \<and> j < n + m then coeff (constraintMat inp) (j - n) i
         else if j < n \<and> i < n + m then coeff (constraintMat inp) (i - n) j
         else 0)\<rparr>)"

section \<open>Concrete inputs\<close>

definition identity_mat :: "nat \<Rightarrow> real mat" where
  "identity_mat n = \<lparr>nrows = n, ncols = n, coeff = (\<lambda>i j. if i = j \<and> i < n then 1 else 0)\<rparr>"

definition triangle :: input where
  \<comment> \<open>the scenario of the specification: one triangle, one branch, field \<open>(1,0,0)\<close>, unit
      weights, the identity as \<open>vt2cMat\<close>, one constraint row on the first unknown\<close>
  "triangle =
     \<lparr>wholeV = mat_of_rows 3 [[0, 0, 0], [1, 0, 0], [0, 1, 0]],
      wholeF = mat_of_rows 3 [[0, 1, 2]],
      FE = mat_of_rows 3 [[0, 1, 2]],
      rawField = mat_of_rows 3 [[1, 0, 0]],
      edgeWeights = [1, 1, 1],
      vt2cMat = identity_mat 3,
      constraintMat = mat_of_rows 3 [[1, 0, 0]]\<rparr>"

definition triangle_weighted :: input where
  "triangle_weighted = triangle\<lparr>edgeWeights := [2, 3, 5]\<rparr>"

definition triangle_two_branches :: input where
  "triangle_two_branches =
     triangle\<lparr>rawField := mat_of_rows 6 [[1, 0, 0, 0, 1, 0]],
              vt2cMat := identity_mat 6,
              constraintMat := mat_of_rows 6 [[1, 0, 0, 0, 0, 0]]\<rparr>"

definition triangle_merged :: input where
  \<comment> \<open>the second and third corner share one reduced unknown\<close>
  "triangle_merged =
     triangle\<lparr>vt2cMat := mat_of_rows 2 [[1, 0], [0, 1], [0, 1]],
              constraintMat := mat_of_rows 2 [[1, 0]]\<rparr>"

definition triangle_free :: input where
  \<comment> \<open>the triangle without any constraint row\<close>
  "triangle_free = triangle\<lparr>constraintMat := mat_of_rows 3 []\<rparr>"

definition triangle_wide_field :: "real \<Rightarrow> input" where
  \<comment> \<open>a field with four columns: one branch and one column that belongs to none\<close>
  "triangle_wide_field t = triangle_free\<lparr>rawField := mat_of_rows 4 [[1, 0, 0, t]]\<rparr>"

definition answering :: "bool \<Rightarrow> real list option \<Rightarrow> solver" where
  \<comment> \<open>a solver that gives the same two answers whatever system it is handed\<close>
  "answering c x =
     \<lparr>lu_compute = (\<lambda>M. c),
      lu_solve = (\<lambda>M v. map_option (\<lambda>xs i. if i < length xs then xs ! i else 0) x)\<rparr>"

section \<open>Dimensions\<close>

lemma length_mat_vec: "length (mat_vec M v) = nrows M"
  by (simp add: mat_vec_def)

lemma dims_A_mat:
  "nrows (A_mat inp) = cornerDim inp + nrows (constraintMat inp)"
  "ncols (A_mat inp) = cornerDim inp + nrows (constraintMat inp)"
  by (simp_all add: A_mat_def zero_mat_def)

lemma length_b_vec: "length (b_vec inp) = ncols (vt2cMat inp) + nrows (constraintMat inp)"
  by (simp add: b_vec_def Let_def length_mat_vec mat_mul_def transpose_mat_def)

lemma cornerDim_triangle: "cornerDim triangle = 3"
  by code_simp

section \<open>The iteration space\<close>

lemma set_iterations:
  "(i, j, k) \<in> set (iterations nF N) \<longleftrightarrow> i < nF \<and> j < 3 \<and> k < N"
  by (auto simp: iterations_def image_iff)

lemma upt_three_blocks:
  "[a..<a + n + n + n] = [a..<a + n] @ [a + n..<a + n + n] @ [a + n + n..<a + n + n + n]"
proof -
  have "[a..<a + n + n + n] = [a..<a + n + n] @ [a + n + n..<a + n + n + n]"
    by (rule upt_add_eq_append) simp
  also have "[a..<a + n + n] = [a..<a + n] @ [a + n..<a + n + n]"
    by (rule upt_add_eq_append) simp
  finally show ?thesis by (simp only: append_assoc)
qed

lemma rowIndex_branches:
  "map (\<lambda>k. rowIndex N i j k) [0..<N] = [3 * N * i + N * j..<3 * N * i + N * j + N]"
proof -
  have "map (\<lambda>k. rowIndex N i j k) [0..<N] = map (\<lambda>k. k + (3 * N * i + N * j)) [0..<N]"
    by (simp add: rowIndex_def add.commute)
  also have "\<dots> = [3 * N * i + N * j..<N + (3 * N * i + N * j)]"
    by (rule map_add_upt)
  also have "N + (3 * N * i + N * j) = 3 * N * i + N * j + N"
    by simp
  finally show ?thesis .
qed

lemma rowIndex_corners:
  "concat (map (\<lambda>j. map (\<lambda>k. rowIndex N i j k) [0..<N]) [0..<3]) = [3 * N * i..<3 * N * i + 3 * N]"
proof -
  define a where "a = 3 * N * i"
  have three: "[0..<3] = [0, 1, 2]" by (simp add: upt_rec)
  have e0: "3 * N * i + N * 0 = a" and e1: "3 * N * i + N * 1 = a + N"
    and e2: "3 * N * i + N * 2 = a + N + N" and e3: "3 * N * i + 3 * N = a + N + N + N"
    by (simp_all add: a_def)
  have "concat (map (\<lambda>j. map (\<lambda>k. rowIndex N i j k) [0..<N]) [0..<3]) =
        [a..<a + N] @ [a + N..<a + N + N] @ [a + N + N..<a + N + N + N]"
    unfolding three by (simp only: list.map concat.simps rowIndex_branches e0 e1 e2 append_Nil2)
  also have "\<dots> = [a..<a + N + N + N]"
    by (rule upt_three_blocks[symmetric])
  also have "\<dots> = [3 * N * i..<3 * N * i + 3 * N]"
    by (rule arg_cong2[where f = upt]) (simp_all add: a_def)
  finally show ?thesis .
qed

lemma rowIndex_iterations:
  "map (\<lambda>(i, j, k). rowIndex N i j k) (iterations nF N) = [0..<3 * N * nF]"
proof (induction nF)
  case 0
  then show ?case by (simp add: iterations_def)
next
  case (Suc nF)
  have "iterations (Suc nF) N =
        iterations nF N @ concat (map (\<lambda>j. map (\<lambda>k. (nF, j, k)) [0..<N]) [0..<3])"
    by (simp add: iterations_def)
  then have "map (\<lambda>(i, j, k). rowIndex N i j k) (iterations (Suc nF) N) =
        [0..<3 * N * nF] @ concat (map (\<lambda>j. map (\<lambda>k. rowIndex N nF j k) [0..<N]) [0..<3])"
    using Suc by (simp add: map_concat comp_def)
  also have "\<dots> = [0..<3 * N * nF] @ [3 * N * nF..<3 * N * nF + 3 * N]"
    by (simp only: rowIndex_corners)
  also have "\<dots> = [0..<3 * N * nF + 3 * N]"
    using upt_add_eq_append[of 0 "3 * N * nF" "3 * N"] by simp
  finally show ?case by (simp add: algebra_simps)
qed

lemma fold_update_other:
  "r \<notin> idx ` set xs \<Longrightarrow> fold (\<lambda>x g. g[idx x := val x]) xs g ! r = g ! r"
  by (induction xs arbitrary: g) auto

lemma length_fold_update:
  "length (fold (\<lambda>x g. g[idx x := val x]) xs g) = length g"
  by (induction xs arbitrary: g) auto

lemma fold_update_nth:
  "distinct (map idx xs) \<Longrightarrow> x \<in> set xs \<Longrightarrow> idx x < length g \<Longrightarrow>
   fold (\<lambda>x g. g[idx x := val x]) xs g ! idx x = val x"
proof (induction xs arbitrary: g)
  case Nil
  then show ?case by simp
next
  case (Cons y ys)
  show ?case
  proof (cases "x = y")
    case True
    with Cons.prems have "idx x \<notin> idx ` set ys" by auto
    then have "fold (\<lambda>x g. g[idx x := val x]) ys (g[idx y := val y]) ! idx x = g[idx y := val y] ! idx x"
      by (rule fold_update_other)
    with True Cons.prems show ?thesis by simp
  next
    case False
    with Cons.prems have "x \<in> set ys" "distinct (map idx ys)" by auto
    with Cons.IH[of "g[idx y := val y]"] Cons.prems show ?thesis by simp
  qed
qed

lemma gamma_fold:
  "gamma (fold (loop_body inp) xs s) =
   fold (\<lambda>x g. g[(case x of (i, j, k) \<Rightarrow> rowIndex (branchN inp) i j k) :=
                   (case x of (i, j, k) \<Rightarrow> dot (fieldBranch inp i k) (edgeVector inp i j))]) xs (gamma s)"
  by (induction xs arbitrary: s) (auto simp: loop_body_def Let_def)

lemma rowIndex_less:
  assumes "i < nF" "j < 3" "k < N"
  shows "rowIndex N i j k < 3 * N * nF"
proof -
  have "(i, j, k) \<in> set (iterations nF N)"
    using assms by (simp add: set_iterations)
  then have "rowIndex N i j k \<in> set (map (\<lambda>(i, j, k). rowIndex N i j k) (iterations nF N))"
    by force
  then show ?thesis by (simp only: rowIndex_iterations) simp
qed

lemma dot_field_edge:
  "dot (fieldBranch inp i k) (edgeVector inp i j) =
     coeff (rawField inp) i (3 * k) *
       (coeff (wholeV inp) (nat (coeff (wholeF inp) i ((j + 1) mod 3))) 0 -
        coeff (wholeV inp) (nat (coeff (wholeF inp) i j)) 0) +
     coeff (rawField inp) i (3 * k + 1) *
       (coeff (wholeV inp) (nat (coeff (wholeF inp) i ((j + 1) mod 3))) 1 -
        coeff (wholeV inp) (nat (coeff (wholeF inp) i j)) 1) +
     coeff (rawField inp) i (3 * k + 2) *
       (coeff (wholeV inp) (nat (coeff (wholeF inp) i ((j + 1) mod 3))) 2 -
        coeff (wholeV inp) (nat (coeff (wholeF inp) i j)) 2)"
proof -
  have three: "[0..<3] = [0, 1, 2]" by (simp add: upt_rec)
  show ?thesis
    by (simp add: dot_def fieldBranch_def edgeVector_def vertexRow_def three)
qed

lemma length_gamma: "length (gamma (assemble inp)) = cornerDim inp"
  by (simp add: assemble_def gamma_fold length_fold_update)

lemma gamma_closed_form:
  assumes "length g0 = cornerDim inp"
  shows "gamma (fold (loop_body inp) (iterations (nrows (wholeF inp)) (branchN inp))
           \<lparr>d0Triplets = ts, M1Triplets = ms, gamma = g0\<rparr>) = gamma (assemble inp)"
proof (rule nth_equalityI)
  let ?idx = "\<lambda>(i, j, k). rowIndex (branchN inp) i j k"
  let ?val = "\<lambda>(i, j, k). dot (fieldBranch inp i k) (edgeVector inp i j)"
  let ?xs = "iterations (nrows (wholeF inp)) (branchN inp)"
  let ?lhs = "gamma (fold (loop_body inp) ?xs \<lparr>d0Triplets = ts, M1Triplets = ms, gamma = g0\<rparr>)"
  show len: "length ?lhs = length (gamma (assemble inp))"
    using assms by (simp add: gamma_fold length_fold_update length_gamma)
  fix r assume "r < length ?lhs"
  then have r: "r < cornerDim inp"
    using assms by (simp add: gamma_fold length_fold_update)
  have d: "distinct (map ?idx ?xs)"
    by (simp add: rowIndex_iterations)
  from r have "r \<in> set (map ?idx ?xs)"
    by (simp only: rowIndex_iterations cornerDim_def) simp
  then obtain x where x: "x \<in> set ?xs" "?idx x = r"
    by auto
  have "fold (\<lambda>x g. g[?idx x := ?val x]) ?xs g0 ! ?idx x = ?val x"
    using d x(1) r assms x(2) by (intro fold_update_nth) simp_all
  moreover have "fold (\<lambda>x g. g[?idx x := ?val x]) ?xs (replicate (cornerDim inp) 0) ! ?idx x = ?val x"
    using d x(1) r x(2) by (intro fold_update_nth) simp_all
  ultimately show "?lhs ! r = gamma (assemble inp) ! r"
    using x(2) by (simp add: gamma_fold assemble_def)
qed

lemma d0Triplets_fold:
  "d0Triplets (fold (loop_body inp) xs s) =
   d0Triplets s @ concat (map (\<lambda>(i, j, k).
     [(rowIndex (branchN inp) i j k, rowIndex (branchN inp) i j k, - 1),
      (rowIndex (branchN inp) i j k, nextIndex (branchN inp) i j k, 1)]) xs)"
  by (induction xs arbitrary: s) (auto simp: loop_body_def Let_def)

lemma M1Triplets_fold:
  "M1Triplets (fold (loop_body inp) xs s) =
   M1Triplets s @ map (\<lambda>(i, j, k).
     (rowIndex (branchN inp) i j k, rowIndex (branchN inp) i j k,
      edgeWeights inp ! nat (coeff (FE inp) i j))) xs"
  by (induction xs arbitrary: s) (auto simp: loop_body_def Let_def)

lemma nextIndex_less:
  assumes "i < nF" "j < 3" "k < N"
  shows "nextIndex N i j k < 3 * N * nF"
proof -
  have "(N * (j + 1)) mod 3 < 3" by simp
  moreover have "3 * N * Suc i \<le> 3 * N * nF"
    using assms(1) by (intro mult_le_mono2) simp
  ultimately show ?thesis
    using assms(3) by (simp add: nextIndex_def)
qed

lemma d0Triplets_in_range:
  assumes "(r, c, v) \<in> set (d0Triplets (assemble inp))"
  shows "r < cornerDim inp \<and> c < cornerDim inp"
proof -
  from assms obtain i j k where m: "(i, j, k) \<in> set (iterations (nrows (wholeF inp)) (branchN inp))"
    and rc: "r = rowIndex (branchN inp) i j k"
      "c = rowIndex (branchN inp) i j k \<or> c = nextIndex (branchN inp) i j k"
    by (auto simp: assemble_def d0Triplets_fold)
  from m have "i < nrows (wholeF inp)" "j < 3" "k < branchN inp"
    by (simp_all add: set_iterations)
  then show ?thesis
    using rc rowIndex_less nextIndex_less by (auto simp: cornerDim_def)
qed

lemma M1Triplets_in_range:
  assumes "(r, c, v) \<in> set (M1Triplets (assemble inp))"
  shows "r < cornerDim inp \<and> c < cornerDim inp"
proof -
  from assms obtain i j k where m: "(i, j, k) \<in> set (iterations (nrows (wholeF inp)) (branchN inp))"
    and rc: "r = rowIndex (branchN inp) i j k" "c = rowIndex (branchN inp) i j k"
    by (auto simp: assemble_def M1Triplets_fold)
  from m have "i < nrows (wholeF inp)" "j < 3" "k < branchN inp"
    by (simp_all add: set_iterations)
  then show ?thesis
    using rc rowIndex_less by (auto simp: cornerDim_def)
qed

section \<open>Dependence on the field\<close>

lemma fieldBranch_cong:
  assumes "ncols rf = ncols (rawField inp)"
    and "\<forall>j < 3 * (ncols (rawField inp) div 3). coeff rf i j = coeff (rawField inp) i j"
    and "k < branchN inp"
  shows "fieldBranch (inp\<lparr>rawField := rf\<rparr>) i k = fieldBranch inp i k"
proof -
  have "\<And>c. c < 3 \<Longrightarrow> 3 * k + c < 3 * (ncols (rawField inp) div 3)"
    using assms(3) by (simp add: branchN_def)
  with assms(2) show ?thesis
    by (simp add: fieldBranch_def)
qed

lemma assemble_cong:
  assumes "ncols rf = ncols (rawField inp)"
    and "\<forall>i < nrows (wholeF inp). \<forall>j < 3 * (ncols (rawField inp) div 3).
           coeff rf i j = coeff (rawField inp) i j"
  shows "assemble (inp\<lparr>rawField := rf\<rparr>) = assemble inp"
proof -
  have N: "branchN (inp\<lparr>rawField := rf\<rparr>) = branchN inp"
    using assms(1) by (simp add: branchN_def)
  have "fold (loop_body (inp\<lparr>rawField := rf\<rparr>)) (iterations (nrows (wholeF inp)) (branchN inp))
          \<lparr>d0Triplets = [], M1Triplets = [], gamma = replicate (cornerDim inp) 0\<rparr> =
        fold (loop_body inp) (iterations (nrows (wholeF inp)) (branchN inp))
          \<lparr>d0Triplets = [], M1Triplets = [], gamma = replicate (cornerDim inp) 0\<rparr>"
  proof (rule fold_cong[OF refl refl])
    fix x assume "x \<in> set (iterations (nrows (wholeF inp)) (branchN inp))"
    moreover obtain i j k where x: "x = (i, j, k)"
      by (cases x rule: prod_cases3)
    ultimately have "i < nrows (wholeF inp)" "k < branchN inp"
      by (simp_all add: set_iterations)
    then have "fieldBranch (inp\<lparr>rawField := rf\<rparr>) i k = fieldBranch inp i k"
      using assms by (intro fieldBranch_cong) simp_all
    then show "loop_body (inp\<lparr>rawField := rf\<rparr>) x = loop_body inp x"
      by (simp add: loop_body_def x N edgeVector_def vertexRow_def)
  qed
  then show ?thesis
    by (simp add: assemble_def N cornerDim_def)
qed

lemma asserts_cong:
  assumes "nrows rf = nrows (rawField inp)" "ncols rf = ncols (rawField inp)"
  shows "loop_asserts (inp\<lparr>rawField := rf\<rparr>) = loop_asserts inp"
    and "product_asserts (inp\<lparr>rawField := rf\<rparr>) = product_asserts inp"
  using assms
  by (simp_all add: loop_asserts_def body_asserts_def product_asserts_def branchN_def cornerDim_def)

lemma loop_asserts_rows:
  assumes "loop_asserts inp" "0 < branchN inp" "i < nrows (wholeF inp)"
  shows "i < nrows (rawField inp)"
proof -
  from assms have "list_all (\<lambda>j. body_asserts inp i j) [0..<3]"
    by (simp add: loop_asserts_def list_all_iff)
  then have "body_asserts inp i 0"
    by (simp add: list_all_iff)
  then show ?thesis by (simp add: body_asserts_def)
qed

lemma parameterize_aborts:
  "\<not> (loop_asserts inp \<and> product_asserts inp) \<Longrightarrow> parameterize slv inp uv0 = Inl EigenAssert"
  unfolding parameterize_def by (rule if_not_P)

lemma parameterize_checked:
  assumes "loop_asserts inp" "product_asserts inp"
  shows "parameterize slv inp uv0 =
     (if lu_compute slv (A_mat inp) then
        if nrows (A_mat inp) = length (b_vec inp) then
          (case lu_solve slv (A_mat inp) (b_vec inp) of
             None \<Rightarrow> Inr (SolveFailed, uv0)
           | Some xf \<Rightarrow>
               if ncols (vt2cMat inp) = ncols (A_mat inp)
               then Inr (Solved, col_vector (mat_vec (vt2cMat inp) (map xf [0..<ncols (A_mat inp)])))
               else Inl EigenAssert)
        else Inl EigenAssert
      else Inr (ComputeFailed, uv0))"
  using assms by (simp add: parameterize_def Let_def split: option.split)

section \<open>The target vector\<close>

text \<open>
  C5. For every face \<open>i\<close>, corner \<open>j\<close> and branch \<open>k\<close> the entry \<open>3*N*i + N*j + k\<close> of
  \<open>gamma\<close> is the dot product of the three field columns starting at \<open>3*k\<close> of row \<open>i\<close>
  with the difference of the positions of the vertices \<open>wholeF(i, (j+1) mod 3)\<close> and
  \<open>wholeF(i, j)\<close>. No later pass of the loop overwrites it.
\<close>

theorem gamma_is_field_dot_edge:
  assumes "i < nrows (wholeF inp)" and "j < 3" and "k < branchN inp"
  shows "gamma (assemble inp) ! (3 * branchN inp * i + branchN inp * j + k) =
     coeff (rawField inp) i (3 * k) *
       (coeff (wholeV inp) (nat (coeff (wholeF inp) i ((j + 1) mod 3))) 0 -
        coeff (wholeV inp) (nat (coeff (wholeF inp) i j)) 0) +
     coeff (rawField inp) i (3 * k + 1) *
       (coeff (wholeV inp) (nat (coeff (wholeF inp) i ((j + 1) mod 3))) 1 -
        coeff (wholeV inp) (nat (coeff (wholeF inp) i j)) 1) +
     coeff (rawField inp) i (3 * k + 2) *
       (coeff (wholeV inp) (nat (coeff (wholeF inp) i ((j + 1) mod 3))) 2 -
        coeff (wholeV inp) (nat (coeff (wholeF inp) i j)) 2)"
proof -
  let ?idx = "\<lambda>(i, j, k). rowIndex (branchN inp) i j k"
  let ?val = "\<lambda>(i, j, k). dot (fieldBranch inp i k) (edgeVector inp i j)"
  let ?xs = "iterations (nrows (wholeF inp)) (branchN inp)"
  have d: "distinct (map ?idx ?xs)"
    by (simp add: rowIndex_iterations)
  have m: "(i, j, k) \<in> set ?xs"
    using assms by (simp add: set_iterations)
  have l: "?idx (i, j, k) < length (replicate (cornerDim inp) (0::real))"
    using assms by (simp add: cornerDim_def rowIndex_less)
  have "fold (\<lambda>x g. g[?idx x := ?val x]) ?xs (replicate (cornerDim inp) 0) ! ?idx (i, j, k) =
        ?val (i, j, k)"
    using d m l by (rule fold_update_nth)
  then have "gamma (assemble inp) ! rowIndex (branchN inp) i j k =
        dot (fieldBranch inp i k) (edgeVector inp i j)"
    by (simp add: assemble_def gamma_fold)
  then show ?thesis
    by (simp only: rowIndex_def dot_field_edge)
qed

theorem gamma_is_field_dot_edge_witness:
  "0 < nrows (wholeF triangle) \<and> (1::nat) < 3 \<and> 0 < branchN triangle \<and>
   gamma (assemble triangle) ! (3 * branchN triangle * 0 + branchN triangle * 1 + 0) = - 1"
proof -
  have h1: "0 < nrows (wholeF triangle)" by code_simp
  have h2: "(1::nat) < 3" by simp
  have h3: "0 < branchN triangle" by code_simp
  have "coeff (rawField triangle) 0 (3 * 0) *
       (coeff (wholeV triangle) (nat (coeff (wholeF triangle) 0 ((1 + 1) mod 3))) 0 -
        coeff (wholeV triangle) (nat (coeff (wholeF triangle) 0 1)) 0) +
     coeff (rawField triangle) 0 (3 * 0 + 1) *
       (coeff (wholeV triangle) (nat (coeff (wholeF triangle) 0 ((1 + 1) mod 3))) 1 -
        coeff (wholeV triangle) (nat (coeff (wholeF triangle) 0 1)) 1) +
     coeff (rawField triangle) 0 (3 * 0 + 2) *
       (coeff (wholeV triangle) (nat (coeff (wholeF triangle) 0 ((1 + 1) mod 3))) 2 -
        coeff (wholeV triangle) (nat (coeff (wholeF triangle) 0 1)) 2) = - 1"
    by code_simp
  with gamma_is_field_dot_edge [OF h1 h2 h3] h1 h2 h3 show ?thesis
    by (simp only: simp_thms)
qed

section \<open>The difference operator\<close>

text \<open>
  C8. With a single branch the column that the code computes for the entry \<open>+1\<close>,
  \<open>3*N*i + (N*(j+1)) mod 3 + k\<close>, is the column of the specification,
  \<open>3*N*i + N*((j+1) mod 3) + k\<close>, for every face, corner and offset.
\<close>

theorem nextIndex_single_branch: "nextIndex 1 i j k = nextIndex_spec 1 i j k"
  by (simp add: nextIndex_def nextIndex_spec_def)

text \<open>
  C2. For two branches the code does not put the entry \<open>+1\<close> where the specification
  says. On one triangle with two branches, row \<open>2\<close> (face 0, corner 1, branch 0) of \<open>d0\<close>
  has its \<open>+1\<close> in column \<open>1\<close>, and nothing in column \<open>4 = 3*N*i + N*((j+1) mod 3) + k\<close>.
\<close>

theorem d0_two_branches_wrong_column:
  "branchN triangle_two_branches = 2 \<and> rowIndex 2 0 1 0 = 2 \<and> nextIndex_spec 2 0 1 0 = 4 \<and>
   nextIndex 2 0 1 0 = 1 \<and>
   map (coeff (d0 triangle_two_branches) 2) [0..<6] = [0, 1, - 1, 0, 0, 0]"
  by code_simp

section \<open>The right-hand side\<close>

text \<open>
  C1. The code computes the top segment of \<open>b\<close> without the weight matrix. With the edge
  weights \<open>2, 3, 5\<close> on the triangle the code's \<open>b\<close> is \<open>[-1, 2, -1, 0]\<close>, while
  \<open>P\<^sup>t D\<^sup>t M \<gamma>\<close> followed by a zero is \<open>[-2, 5, -3, 0]\<close>.
\<close>

theorem b_vec_ignores_weights:
  "b_vec triangle_weighted = [- 1, 2, - 1, 0] \<and> b_spec triangle_weighted = [- 2, 5, - 3, 0]"
  by code_simp

section \<open>The augmented matrix\<close>

text \<open>
  C3. The matrix handed to the solver is not the block matrix of the specification: it
  has no entry at all, and its size is \<open>3*N*#F + #constraints\<close> whatever the column count
  of \<open>vt2cMat\<close>. On the triangle the energy block should start with \<open>2\<close> and the
  constraint block with \<open>1\<close>; with two corners merged the size should be \<open>3\<close>, not \<open>4\<close>.
  The triplets collected in \<open>ATriplets\<close> do describe the block matrix on the triangle;
  they are never put into \<open>A\<close>.
\<close>

theorem A_mat_is_not_the_block_matrix:
  "coeff (A_mat triangle) 0 0 = 0 \<and> coeff (A_spec triangle) 0 0 = 2 \<and>
   coeff (A_mat triangle) 3 0 = 0 \<and> coeff (A_spec triangle) 3 0 = 1 \<and>
   coeff (A_mat triangle) 0 3 = 0 \<and> coeff (A_spec triangle) 0 3 = 1 \<and>
   nrows (A_mat triangle_merged) = 4 \<and> nrows (A_spec triangle_merged) = 3 \<and>
   map (\<lambda>i. map (coeff (setFromTriplets 4 4 (ATriplets triangle)) i) [0..<4]) [0..<4] =
     [[2, - 1, - 1, 1], [- 1, 2, - 1, 0], [- 1, - 1, 2, 0], [1, 0, 0, 0]]"
  by code_simp

section \<open>The scenario of the specification\<close>

text \<open>
  C7. On the triangle of the specification the routine never returns a solution,
  whatever the solver answers: either the factorisation of the empty \<open>4 \<times> 4\<close> matrix is
  reported as failed, or the solve is, or the product of the \<open>3 \<times> 3\<close> matrix \<open>vt2cMat\<close>
  with the solution of length \<open>4\<close> fails Eigen's size check. In the first two cases
  \<open>cornerUV\<close> is what it was before the call.
\<close>

theorem triangle_scenario_fails:
  "A_mat triangle = zero_mat 4 4 \<and> b_vec triangle = [- 1, 2, - 1, 0] \<and>
   parameterize slv triangle uv0 =
     (if lu_compute slv (zero_mat 4 4) then
        (case lu_solve slv (zero_mat 4 4) [- 1, 2, - 1, 0] of
           None \<Rightarrow> Inr (SolveFailed, uv0)
         | Some xf \<Rightarrow> Inl EigenAssert)
      else Inr (ComputeFailed, uv0))"
proof -
  have "nrows (constraintMat triangle) = 1"
    by code_simp
  then have A: "A_mat triangle = zero_mat 4 4"
    by (simp add: A_mat_def cornerDim_triangle)
  have B: "b_vec triangle = [- 1, 2, - 1, 0]"
    by code_simp
  have C: "ncols (vt2cMat triangle) = 3"
    by code_simp
  have D: "loop_asserts triangle \<and> product_asserts triangle"
    by code_simp
  have "parameterize slv triangle uv0 =
     (if lu_compute slv (zero_mat 4 4) then
        (case lu_solve slv (zero_mat 4 4) [- 1, 2, - 1, 0] of
           None \<Rightarrow> Inr (SolveFailed, uv0)
         | Some xf \<Rightarrow> Inl EigenAssert)
      else Inr (ComputeFailed, uv0))"
    unfolding parameterize_def A B using C D
    by (simp add: zero_mat_def split: option.split)
  with A B show ?thesis by simp
qed

section \<open>Runs with a given solver\<close>

text \<open>
  The matrix handed to the solver has no entry, so an exact factorisation exists only
  when the matrix has size zero. The solver is a parameter of the model all the same;
  the runs below fix its answers.
\<close>

lemma lu_answering:
  "lu_compute (answering c x) M = c"
  "lu_solve (answering c None) M v = None"
  "lu_solve (answering c (Some xs)) M v = Some (\<lambda>i. if i < length xs then xs ! i else 0)"
  by (simp_all add: answering_def)

lemma triangle_free_facts:
  "loop_asserts triangle_free" "product_asserts triangle_free"
  "cornerDim triangle_free = 3" "nrows (constraintMat triangle_free) = 0"
  "ncols (vt2cMat triangle_free) = 3"
  by code_simp+

lemma triangle_free_solved:
  "parameterize (answering True (Some [0, 1, 0])) triangle_free uv0 =
   Inr (Solved, col_vector [0, 1, 0])"
proof -
  have "mat_vec (vt2cMat triangle_free) (map (\<lambda>i. if i < length [0, 1, 0::real] then [0, 1, 0] ! i else 0) [0..<3]) = [0, 1, 0]"
    by code_simp
  then show ?thesis
    by (simp add: parameterize_checked triangle_free_facts lu_answering dims_A_mat length_b_vec)
qed

lemma triangle_wide_field_facts:
  "loop_asserts (triangle_wide_field 7)" "product_asserts (triangle_wide_field 7)"
  "cornerDim (triangle_wide_field 7) = 3" "nrows (constraintMat (triangle_wide_field 7)) = 0"
  "ncols (vt2cMat (triangle_wide_field 7)) = 3"
  "nrows (rawField (triangle_wide_field 7)) = 1" "ncols (rawField (triangle_wide_field 7)) = 4"
  by code_simp+

lemma triangle_facts:
  "loop_asserts triangle" "product_asserts triangle"
  "nrows (constraintMat triangle) = 1" "ncols (vt2cMat triangle) = 3"
  by code_simp+

section \<open>The projection\<close>

text \<open>
  Line 113 is \<open>cornerUV=vt2cMat*x\<close> with the whole solution \<open>x\<close> of the augmented system,
  whose length is the size of \<open>A\<close>. As soon as there is a constraint row, \<open>x\<close> has more
  entries than \<open>vt2cMat\<close> has columns (or the solve has already failed its own size
  check), so no call with a constraint returns a solution.
\<close>

lemma never_solved_with_a_constraint:
  assumes "0 < nrows (constraintMat inp)"
  shows "parameterize slv inp uv0 \<noteq> Inr (Solved, uv)"
proof
  assume a: "parameterize slv inp uv0 = Inr (Solved, uv)"
  then have chk: "loop_asserts inp" "product_asserts inp"
    using parameterize_aborts[of inp slv uv0] by auto
  from a have "nrows (A_mat inp) = length (b_vec inp)" "ncols (vt2cMat inp) = ncols (A_mat inp)"
    by (auto simp: parameterize_checked[OF chk] split: if_splits option.splits)
  then have "nrows (constraintMat inp) = 0"
    by (simp add: dims_A_mat length_b_vec)
  with assms show False by simp
qed


section \<open>Failure of the solver\<close>

text \<open>
  C6. When the factorisation is reported as failed the routine returns at once, and when
  the solve is reported as failed it returns at once; in both cases \<open>cornerUV\<close> holds what
  the caller passed in. The solver is asked once, and no other method is tried: the result
  of the call is the failure itself. More generally, every return that is not the
  successful one leaves \<open>cornerUV\<close> as it was.
\<close>

theorem failure_leaves_cornerUV:
  "(loop_asserts inp \<and> product_asserts inp \<and> \<not> lu_compute slv (A_mat inp) \<longrightarrow>
      parameterize slv inp uv0 = Inr (ComputeFailed, uv0)) \<and>
   (loop_asserts inp \<and> product_asserts inp \<and> lu_compute slv (A_mat inp) \<and>
    nrows (A_mat inp) = length (b_vec inp) \<and> lu_solve slv (A_mat inp) (b_vec inp) = None \<longrightarrow>
      parameterize slv inp uv0 = Inr (SolveFailed, uv0)) \<and>
   (\<forall>st uv. parameterize slv inp uv0 = Inr (st, uv) \<and> st \<noteq> Solved \<longrightarrow> uv = uv0)"
proof (intro conjI impI allI)
  assume "loop_asserts inp \<and> product_asserts inp \<and> \<not> lu_compute slv (A_mat inp)"
  then show "parameterize slv inp uv0 = Inr (ComputeFailed, uv0)"
    by (simp add: parameterize_checked)
next
  assume "loop_asserts inp \<and> product_asserts inp \<and> lu_compute slv (A_mat inp) \<and>
    nrows (A_mat inp) = length (b_vec inp) \<and> lu_solve slv (A_mat inp) (b_vec inp) = None"
  then show "parameterize slv inp uv0 = Inr (SolveFailed, uv0)"
    by (simp add: parameterize_checked)
next
  fix st uv
  assume a: "parameterize slv inp uv0 = Inr (st, uv) \<and> st \<noteq> Solved"
  then have chk: "loop_asserts inp" "product_asserts inp"
    using parameterize_aborts[of inp slv uv0] by auto
  from a show "uv = uv0"
    by (auto simp: parameterize_checked[OF chk] split: if_splits option.splits)
qed

theorem failure_leaves_cornerUV_witness:
  "parameterize (answering False None) triangle (col_vector [7, 8, 9]) =
     Inr (ComputeFailed, col_vector [7, 8, 9]) \<and>
   parameterize (answering True None) triangle (col_vector [7, 8, 9]) =
     Inr (SolveFailed, col_vector [7, 8, 9])"
proof -
  have d: "nrows (A_mat triangle) = length (b_vec triangle)"
    by (simp add: dims_A_mat length_b_vec triangle_facts cornerDim_triangle)
  have "parameterize (answering False None) triangle (col_vector [7, 8, 9]) =
     Inr (ComputeFailed, col_vector [7, 8, 9])"
    using failure_leaves_cornerUV [of triangle "answering False None" "col_vector [7, 8, 9]"]
    by (simp add: triangle_facts lu_answering)
  moreover have "parameterize (answering True None) triangle (col_vector [7, 8, 9]) =
     Inr (SolveFailed, col_vector [7, 8, 9])"
    using failure_leaves_cornerUV [of triangle "answering True None" "col_vector [7, 8, 9]"] d
    by (simp add: triangle_facts lu_answering)
  ultimately show ?thesis by simp
qed

section \<open>Consistency of the dimensions\<close>

text \<open>
  C9. \<open>A\<close> has \<open>3*N*#F + #constraints\<close> rows and columns, \<open>b\<close> has
  \<open>cols(vt2cMat) + #constraints\<close> entries. The solve needs \<open>cols(vt2cMat) = 3*N*#F\<close>, the
  final product of \<open>vt2cMat\<close> with the whole solution needs
  \<open>cols(vt2cMat) = 3*N*#F + #constraints\<close>; both hold exactly when there is no constraint
  row and \<open>cols(vt2cMat) = 3*N*#F\<close>. A call that returns a solution therefore has no
  constraint row and a square \<open>vt2cMat\<close> of size \<open>3*N*#F\<close>.
\<close>

theorem dimensions_agree_only_without_constraints:
  "nrows (A_mat inp) = 3 * branchN inp * nrows (wholeF inp) + nrows (constraintMat inp) \<and>
   ncols (A_mat inp) = 3 * branchN inp * nrows (wholeF inp) + nrows (constraintMat inp) \<and>
   length (b_vec inp) = ncols (vt2cMat inp) + nrows (constraintMat inp) \<and>
   (nrows (A_mat inp) = length (b_vec inp) \<longleftrightarrow>
      ncols (vt2cMat inp) = 3 * branchN inp * nrows (wholeF inp)) \<and>
   (ncols (vt2cMat inp) = length (map xf [0..<ncols (A_mat inp)]) \<longleftrightarrow>
      ncols (vt2cMat inp) = 3 * branchN inp * nrows (wholeF inp) + nrows (constraintMat inp)) \<and>
   (nrows (A_mat inp) = length (b_vec inp) \<and>
    ncols (vt2cMat inp) = length (map xf [0..<ncols (A_mat inp)]) \<longleftrightarrow>
      nrows (constraintMat inp) = 0 \<and>
      ncols (vt2cMat inp) = 3 * branchN inp * nrows (wholeF inp)) \<and>
   (parameterize slv inp uv0 = Inr (Solved, uv) \<longrightarrow>
      nrows (constraintMat inp) = 0 \<and>
      ncols (vt2cMat inp) = 3 * branchN inp * nrows (wholeF inp) \<and>
      nrows (vt2cMat inp) = 3 * branchN inp * nrows (wholeF inp))"
proof -
  have dims: "nrows (A_mat inp) = 3 * branchN inp * nrows (wholeF inp) + nrows (constraintMat inp)"
    "ncols (A_mat inp) = 3 * branchN inp * nrows (wholeF inp) + nrows (constraintMat inp)"
    "length (b_vec inp) = ncols (vt2cMat inp) + nrows (constraintMat inp)"
    by (simp_all add: dims_A_mat length_b_vec cornerDim_def)
  have run: "nrows (constraintMat inp) = 0 \<and>
      ncols (vt2cMat inp) = 3 * branchN inp * nrows (wholeF inp) \<and>
      nrows (vt2cMat inp) = 3 * branchN inp * nrows (wholeF inp)"
    if a: "parameterize slv inp uv0 = Inr (Solved, uv)"
  proof -
    from a have chk: "loop_asserts inp" "product_asserts inp"
      using parameterize_aborts[of inp slv uv0] by auto
    from a have "nrows (A_mat inp) = length (b_vec inp)" "ncols (vt2cMat inp) = ncols (A_mat inp)"
      by (auto simp: parameterize_checked[OF chk] split: if_splits option.splits)
    with dims chk(2) show ?thesis
      by (simp add: product_asserts_def cornerDim_def)
  qed
  have solve: "nrows (A_mat inp) = length (b_vec inp) \<longleftrightarrow>
      ncols (vt2cMat inp) = 3 * branchN inp * nrows (wholeF inp)"
    by (simp only: dims) arith
  have project: "ncols (vt2cMat inp) = length (map xf [0..<ncols (A_mat inp)]) \<longleftrightarrow>
      ncols (vt2cMat inp) = 3 * branchN inp * nrows (wholeF inp) + nrows (constraintMat inp)"
    by (simp add: dims)
  have both: "nrows (A_mat inp) = length (b_vec inp) \<and>
    ncols (vt2cMat inp) = length (map xf [0..<ncols (A_mat inp)]) \<longleftrightarrow>
      nrows (constraintMat inp) = 0 \<and>
      ncols (vt2cMat inp) = 3 * branchN inp * nrows (wholeF inp)"
    by (simp only: solve project) arith
  from run have run': "parameterize slv inp uv0 = Inr (Solved, uv) \<longrightarrow>
      nrows (constraintMat inp) = 0 \<and>
      ncols (vt2cMat inp) = 3 * branchN inp * nrows (wholeF inp) \<and>
      nrows (vt2cMat inp) = 3 * branchN inp * nrows (wholeF inp)"
    by (rule impI)
  show ?thesis
    by (intro conjI dims solve project both run')
qed

theorem dimensions_agree_only_without_constraints_witness:
  "parameterize (answering True (Some [0, 1, 0])) triangle_free (col_vector [7, 8, 9]) =
     Inr (Solved, col_vector [0, 1, 0]) \<and>
   nrows (constraintMat triangle_free) = 0 \<and>
   ncols (vt2cMat triangle_free) = 3 * branchN triangle_free * nrows (wholeF triangle_free) \<and>
   nrows (vt2cMat triangle_free) = 3 * branchN triangle_free * nrows (wholeF triangle_free)"
proof -
  have run: "parameterize (answering True (Some [0, 1, 0])) triangle_free (col_vector [7, 8, 9]) =
     Inr (Solved, col_vector [0, 1, 0])"
    by (rule triangle_free_solved)
  have "parameterize (answering True (Some [0, 1, 0])) triangle_free (col_vector [7, 8, 9]) =
     Inr (Solved, col_vector [0, 1, 0]) \<longrightarrow>
   nrows (constraintMat triangle_free) = 0 \<and>
   ncols (vt2cMat triangle_free) = 3 * branchN triangle_free * nrows (wholeF triangle_free) \<and>
   nrows (vt2cMat triangle_free) = 3 * branchN triangle_free * nrows (wholeF triangle_free)"
    using dimensions_agree_only_without_constraints
      [of triangle_free "\<lambda>i. 0" "answering True (Some [0, 1, 0])" "col_vector [7, 8, 9]"
        "col_vector [0, 1, 0]"]
    by blast
  with run show ?thesis
    by blast
qed

section \<open>Field columns beyond the last whole branch\<close>

text \<open>
  C10. The number of branches is the column count of the field divided by three, rounded
  down, and columns of the field from \<open>3*N\<close> on are never read: two calls whose fields
  have the same shape and agree on the columns below \<open>3*N\<close>, all other inputs equal, give
  the same result.
\<close>

theorem field_tail_columns_ignored:
  assumes "nrows rf = nrows (rawField inp)" and "ncols rf = ncols (rawField inp)"
    and "\<forall>i < nrows (rawField inp). \<forall>j < 3 * (ncols (rawField inp) div 3).
           coeff rf i j = coeff (rawField inp) i j"
  shows "branchN inp = ncols (rawField inp) div 3 \<and>
         parameterize slv (inp\<lparr>rawField := rf\<rparr>) uv0 = parameterize slv inp uv0"
proof (cases "loop_asserts inp \<and> product_asserts inp")
  case False
  then have "\<not> (loop_asserts (inp\<lparr>rawField := rf\<rparr>) \<and> product_asserts (inp\<lparr>rawField := rf\<rparr>))"
    by (simp only: asserts_cong[OF assms(1,2)] simp_thms)
  with False show ?thesis
    by (simp only: parameterize_aborts branchN_def simp_thms)
next
  case True
  have "assemble (inp\<lparr>rawField := rf\<rparr>) = assemble inp"
  proof (cases "branchN inp = 0")
    case True
    then show ?thesis
      using assms(2) by (intro assemble_cong) (simp_all add: branchN_def)
  next
    case False
    with \<open>loop_asserts inp \<and> product_asserts inp\<close>
    have "\<And>i. i < nrows (wholeF inp) \<Longrightarrow> i < nrows (rawField inp)"
      by (intro loop_asserts_rows) simp_all
    with assms(3) show ?thesis
      using assms(2) by (intro assemble_cong) simp_all
  qed
  moreover have "cornerDim (inp\<lparr>rawField := rf\<rparr>) = cornerDim inp"
    using assms(2) by (simp add: cornerDim_def branchN_def)
  ultimately have "A_mat (inp\<lparr>rawField := rf\<rparr>) = A_mat inp" "b_vec (inp\<lparr>rawField := rf\<rparr>) = b_vec inp"
    by (simp_all add: A_mat_def b_vec_def d0_def)
  moreover have "vt2cMat (inp\<lparr>rawField := rf\<rparr>) = vt2cMat inp"
    by simp
  ultimately have "parameterize slv (inp\<lparr>rawField := rf\<rparr>) uv0 = parameterize slv inp uv0"
    by (simp only: parameterize_def asserts_cong[OF assms(1,2)])
  then show ?thesis
    by (simp add: branchN_def)
qed

theorem field_tail_columns_ignored_witness:
  "nrows (mat_of_rows 4 [[1, 0, 0, 9::real]]) = nrows (rawField (triangle_wide_field 7)) \<and>
   ncols (mat_of_rows 4 [[1, 0, 0, 9::real]]) = ncols (rawField (triangle_wide_field 7)) \<and>
   coeff (mat_of_rows 4 [[1, 0, 0, 9::real]]) 0 3 = 9 \<and>
   coeff (rawField (triangle_wide_field 7)) 0 3 = 7 \<and>
   parameterize (answering True (Some [0, 1, 0]))
     ((triangle_wide_field 7)\<lparr>rawField := mat_of_rows 4 [[1, 0, 0, 9]]\<rparr>) (zero_mat 0 0) =
   parameterize (answering True (Some [0, 1, 0])) (triangle_wide_field 7) (zero_mat 0 0)"
proof -
  let ?rf = "mat_of_rows 4 [[1, 0, 0, 9::real]]"
  have h1: "nrows ?rf = nrows (rawField (triangle_wide_field 7))"
    by code_simp
  have h2: "ncols ?rf = ncols (rawField (triangle_wide_field 7))"
    by code_simp
  have h3: "\<forall>i < nrows (rawField (triangle_wide_field 7)).
      \<forall>j < 3 * (ncols (rawField (triangle_wide_field 7)) div 3).
        coeff ?rf i j = coeff (rawField (triangle_wide_field 7)) i j"
    by (simp add: triangle_wide_field_facts)
       (simp add: triangle_wide_field_def mat_of_rows_def less_Suc_eq numeral_3_eq_3 nth_Cons')
  have v: "coeff ?rf 0 3 = 9" "coeff (rawField (triangle_wide_field 7)) 0 3 = 7"
    by code_simp+
  from field_tail_columns_ignored [OF h1 h2 h3] h1 h2 v show ?thesis
    by (simp only: simp_thms)
qed

end
